theory Spec2Isabelle
  imports Complex_Main "HOL-Library.Multiset" "HOL-Library.Sublist"
begin

section \<open>Python values shared by both scripts\<close>

text \<open>
  Exceptions are values. Only the classes that the two scripts raise themselves, or that
  the library calls they make raise on the paths modelled here, are listed.
\<close>

datatype error =
    ValueError
  | KeyError
  | AttributeError
  | TypeError
  | FileNotFoundError
  | IsADirectoryError
  | JSONDecodeError
  | UnicodeDecodeError
  | ReadError

text \<open>
  The object \<open>json.load\<close> returns. \<open>JObj\<close> holds the entries of the Python dict that the
  parser built; a key is read with \<open>map_of\<close>, which is \<open>dict.get\<close>.
  Strings are lists of characters with code points below 256; on these the class \<open>\d\<close> of
  \<open>re\<close> is exactly \<open>0\<close>..\<open>9\<close>.
\<close>

datatype json =
    JNull
  | JBool bool
  | JNum rat
  | JStr string
  | JArr "json list"
  | JObj "(string \<times> json) list"

section \<open>model_version_utils.py\<close>

subsection \<open>The file system the script reads and writes\<close>

text \<open>
  What \<open>json.load\<close> makes of a text file: a value, or \<open>JSONDecodeError\<close>.
\<close>

datatype ftext = Json json | NotJson

text \<open>
  A regular file is either a text file or a gzip-compressed tar archive. The members of an
  archive are regular text files, listed in archive order under their member names.
\<close>

datatype fdata = Plain ftext | Archive "(string \<times> ftext) list"

record world =
  files :: "(string \<times> fdata) list"
  dirs :: "string list"
  installed :: string

text \<open>
  \<open>files\<close> binds the path of every regular file, the most recent write first; \<open>dirs\<close>
  are the directories created so far; \<open>installed\<close> is the version of the installed
  distribution \<open>atomsci-ampl\<close>, which \<open>metadata.version\<close> returns.
\<close>

definition isfile :: "world \<Rightarrow> string \<Rightarrow> bool" where
  "isfile w p = (map_of (files w) p \<noteq> None)"

text \<open>\<open>os.path.join\<close> of two components, on a POSIX system.\<close>

definition os_path_join :: "string \<Rightarrow> string \<Rightarrow> string" where
  "os_path_join a b =
     (if b \<noteq> [] \<and> hd b = CHR ''/'' then b
      else if a = [] \<or> last a = CHR ''/'' then a @ b
      else a @ ''/'' @ b)"

text \<open>
  Where \<open>tarfile\<close> writes a member: below the extraction directory, under the member name,
  which is taken as a relative path.
\<close>

definition member_path :: "string \<Rightarrow> string \<Rightarrow> string" where
  "member_path d n = d @ ''/'' @ n"

definition longest :: "world \<Rightarrow> nat" where
  "longest w = fold max (map length (map fst (files w) @ dirs w)) 0"

text \<open>
  \<open>tempfile.mkdtemp\<close> is library code whose contract is to create and return a directory
  that did not exist. The name taken here is longer than every path in use, which makes it
  new; the directory is recorded in \<open>dirs\<close>.
\<close>

definition mkdtemp :: "world \<Rightarrow> string \<times> world" where
  "mkdtemp w =
     (let d = ''/tmp/tmp'' @ replicate (Suc (longest w)) (CHR ''x'')
      in (d, w\<lparr>dirs := d # dirs w\<rparr>))"

text \<open>\<open>tarfile.open(filename, mode='r:gz')\<close>: the member list, or the error raised.\<close>

definition tarfile_open :: "world \<Rightarrow> string \<Rightarrow> error + (string \<times> ftext) list" where
  "tarfile_open w filename =
     (case map_of (files w) filename of
        None \<Rightarrow> Inl (if filename \<in> set (dirs w) then IsADirectoryError else FileNotFoundError)
      | Some (Plain t) \<Rightarrow> Inl ReadError
      | Some (Archive ms) \<Rightarrow> Inr ms)"

text \<open>
  \<open>extractall(path=tmpdir)\<close> writes each member, in archive order, at the member name
  joined to \<open>tmpdir\<close>; a later member of the same name replaces an earlier one.
\<close>

definition extractall :: "world \<Rightarrow> string \<Rightarrow> (string \<times> ftext) list \<Rightarrow> world" where
  "extractall w tmpdir ms =
     w\<lparr>files := fold (\<lambda>(n, t) fs. (member_path tmpdir n, Plain t) # fs) ms (files w)\<rparr>"

subsection \<open>The functions of the script\<close>

definition comp_dict :: "string \<rightharpoonup> string" where
  "comp_dict = map_of
     [(''1.2'', ''group1''), (''1.3'', ''group1''), (''1.4'', ''group2''), (''1.5'', ''group2'')]"

definition is_digit :: "char \<Rightarrow> bool" where
  "is_digit c = (c \<in> set ''0123456789'')"

text \<open>\<open>version_pattern\<close> is \<open>[\d.]+\<close>: this is the test of one character against the class.\<close>

definition version_pattern_class :: "char \<Rightarrow> bool" where
  "version_pattern_class c = (is_digit c \<or> c = CHR ''.'')"

definition get_ampl_version :: "world \<Rightarrow> string" where
  "get_ampl_version w = installed w"

text \<open>
  \<open>open\<close> raises for a path that is no regular file; the bytes of a gzip archive do not
  decode as text; \<open>json.load\<close> raises on text that is not JSON. \<open>.get\<close> exists on a dict
  only: on \<open>None\<close> and on every other value the attribute lookup raises.
\<close>

definition get_ampl_version_from_json :: "world \<Rightarrow> string \<Rightarrow> error + json" where
  "get_ampl_version_from_json w metadata_path =
     (case map_of (files w) metadata_path of
        None \<Rightarrow>
          Inl (if metadata_path \<in> set (dirs w) then IsADirectoryError else FileNotFoundError)
      | Some (Archive ms) \<Rightarrow> Inl UnicodeDecodeError
      | Some (Plain NotJson) \<Rightarrow> Inl JSONDecodeError
      | Some (Plain (Json metadata_dict)) \<Rightarrow>
          (case metadata_dict of
             JObj kvs \<Rightarrow>
               (case map_of kvs ''model_parameters'' of
                  Some (JObj ps) \<Rightarrow>
                    Inr (case map_of ps ''ampl_version'' of
                           None \<Rightarrow> JStr ''probably 1.0.0''
                         | Some version \<Rightarrow> version)
                | _ \<Rightarrow> Inl AttributeError)
           | _ \<Rightarrow> Inl AttributeError))"

definition get_ampl_version_from_model :: "world \<Rightarrow> string \<Rightarrow> (error + json) \<times> world" where
  "get_ampl_version_from_model w filename =
     (let (tmpdir, w1) = mkdtemp w in
      case tarfile_open w1 filename of
        Inl e \<Rightarrow> (Inl e, w1)
      | Inr ms \<Rightarrow>
          (let w2 = extractall w1 tmpdir ms;
               metadata_path = os_path_join tmpdir ''model_metadata.json''
           in (get_ampl_version_from_json w2 metadata_path, w2)))"

text \<open>\<open>re.fullmatch\<close> with \<open>[\d.]+\<close>: at least one character, and every one in the class.\<close>

definition validate_version :: "string \<Rightarrow> error + bool" where
  "validate_version input =
     (if input \<noteq> [] \<and> list_all version_pattern_class input then Inr True
      else Inl ValueError)"

text \<open>The characters \<open>str.strip()\<close> removes, among the code points below 256.\<close>

definition is_space :: "char \<Rightarrow> bool" where
  "is_space c = (c \<in> set [CHR 0x09, CHR 0x0A, CHR 0x0B, CHR 0x0C, CHR 0x0D, CHR 0x1C,
                           CHR 0x1D, CHR 0x1E, CHR 0x1F, CHR 0x20, CHR 0x85, CHR 0xA0])"

definition strip :: "string \<Rightarrow> string" where
  "strip s = rev (dropWhile is_space (rev (dropWhile is_space s)))"

text \<open>
  Lines 143 to 152 of \<open>check_version_compatible\<close>: the two table reads, left operand
  first, and the decision.
\<close>

definition compare_groups :: "world \<Rightarrow> string \<Rightarrow> bool \<Rightarrow> error + bool" where
  "compare_groups w model_ampl_version ignore_check =
     (let ampl_version = take 3 (get_ampl_version w) in
      case comp_dict ampl_version of
        None \<Rightarrow> Inl KeyError
      | Some g \<Rightarrow>
          (case comp_dict model_ampl_version of
             None \<Rightarrow> Inl KeyError
           | Some g' \<Rightarrow>
               (let match = (g = g') in
                if \<not> match \<and> \<not> ignore_check then Inl ValueError else Inr match)))"

definition check_version_compatible ::
    "world \<Rightarrow> string \<Rightarrow> bool \<Rightarrow> (error + bool) \<times> world" where
  "check_version_compatible w input ignore_check =
     (if isfile w input then
        (case get_ampl_version_from_model w input of
           (Inl e, w') \<Rightarrow> (Inl e, w')
         | (Inr (JStr s), w') \<Rightarrow> (compare_groups w' (take 3 (strip s)) ignore_check, w')
         | (Inr _, w') \<Rightarrow> (Inl AttributeError, w'))
      else
        (case validate_version input of
           Inl e \<Rightarrow> (Inl e, w)
         | Inr _ \<Rightarrow> (compare_groups w (take 3 input) ignore_check, w)))"







subsection \<open>What an archive holds, read off the archive alone\<close>





text \<open>
  \<open>keeps w w'\<close>: the later file system \<open>w'\<close> has every file of \<open>w\<close> unchanged and the
  same installed version.
\<close>

definition keeps :: "world \<Rightarrow> world \<Rightarrow> bool" where
  "keeps w w' = (installed w' = installed w \<and>
                 (\<forall>p x. map_of (files w) p = Some x \<longrightarrow> map_of (files w') p = Some x))"

subsection \<open>Two directories of models used as concrete inputs\<close>

definition models_dir :: world where
  "models_dir = \<lparr>files = [(''/m/a.tar.gz'', Archive [(''model_metadata.json'',
            Json (JObj [(''model_parameters'', JObj [(''ampl_version'', JStr '' 1.4.1'')])]))]),
                  (''/m/b.tar.gz'', Archive [(''README'', NotJson)]),
                  (''/m/notes.txt'', Plain NotJson),
                  (''/m/sub/c.tar.gz'', Archive [(''model_metadata.json'',
            Json (JObj [(''model_parameters'', JObj [])]))])],
         dirs = [''/m'', ''/m/sub''], installed = ''1.5.0''\<rparr>"


section \<open>compare_splits_plots.py\<close>

subsection \<open>Dataframes and arrays\<close>

text \<open>
  A cell of a dataframe; \<open>NaN\<close> is the missing value. A row binds column names to cells
  and a dataframe is its column names and its rows in order.
\<close>

datatype cell = Str string | Num rat | NaN

type_synonym row = "(string \<times> cell) list"

record dataframe =
  columns :: "string list"
  rows :: "row list"

definition cell_of :: "row \<Rightarrow> string \<Rightarrow> cell" where
  "cell_of r c = (case map_of r c of None \<Rightarrow> NaN | Some v \<Rightarrow> v)"

text \<open>\<open>df[c]\<close>: the values of a column, or \<open>KeyError\<close> when the dataframe has no such column.\<close>

definition getitem :: "dataframe \<Rightarrow> string \<Rightarrow> error + cell list" where
  "getitem df c =
     (if c \<in> set (columns df) then Inr (map (\<lambda>r. cell_of r c) (rows df)) else Inl KeyError)"

text \<open>\<open>df[mask]\<close> for a boolean column built from \<open>df\<close>: the rows whose entry is true.\<close>

definition getitem_mask :: "dataframe \<Rightarrow> bool list \<Rightarrow> dataframe" where
  "getitem_mask df bs = df\<lparr>rows := map fst (filter snd (zip (rows df) bs))\<rparr>"

definition isin :: "cell list \<Rightarrow> cell list \<Rightarrow> bool list" where
  "isin col vals = map (\<lambda>v. v \<in> set vals) col"

text \<open>
  A two-dimensional array of weights: the number of columns, and the rows. \<open>np.sum(w, axis=0)\<close>
  adds the rows entry by entry, and an array without rows sums to zeros. Division of arrays is
  entry by entry; in exact arithmetic an entry divided by zero has no value (numpy puts
  \<open>nan\<close> or \<open>inf\<close> there and goes on).
\<close>

type_synonym ndarray = "nat \<times> rat list list"

definition np_sum_axis0 :: "ndarray \<Rightarrow> rat list" where
  "np_sum_axis0 a = foldr (\<lambda>r acc. map2 (+) r acc) (snd a) (replicate (fst a) 0)"

definition np_divide :: "rat list \<Rightarrow> rat list \<Rightarrow> rat option list" where
  "np_divide xs ys = map2 (\<lambda>x y. if y = 0 then None else Some (x / y)) xs ys"

subsection \<open>split and the SplitStats class\<close>

text \<open>
  One line of \<open>split\<close>:
  \<open>total_df[total_df[id_col].isin(split_df[split_df['subset']==label]['cmpd_id'])]\<close>.
\<close>

definition select_subset :: "dataframe \<Rightarrow> dataframe \<Rightarrow> string \<Rightarrow> string \<Rightarrow> error + dataframe" where
  "select_subset total_df split_df id_col label =
     (case getitem total_df id_col of
        Inl e \<Rightarrow> Inl e
      | Inr ids \<Rightarrow>
          (case getitem split_df ''subset'' of
             Inl e \<Rightarrow> Inl e
           | Inr labels \<Rightarrow>
               (case getitem (getitem_mask split_df (map (\<lambda>v. v = Str label) labels)) ''cmpd_id'' of
                  Inl e \<Rightarrow> Inl e
                | Inr cmpd_ids \<Rightarrow> Inr (getitem_mask total_df (isin ids cmpd_ids)))))"

definition split ::
    "dataframe \<Rightarrow> dataframe \<Rightarrow> string \<Rightarrow> error + dataframe \<times> dataframe \<times> dataframe" where
  "split total_df split_df id_col =
     (case select_subset total_df split_df id_col ''train'' of
        Inl e \<Rightarrow> Inl e
      | Inr train_df \<Rightarrow>
          (case select_subset total_df split_df id_col ''test'' of
             Inl e \<Rightarrow> Inl e
           | Inr test_df \<Rightarrow>
               (case select_subset total_df split_df id_col ''valid'' of
                  Inl e \<Rightarrow> Inl e
                | Inr valid_df \<Rightarrow> Inr (train_df, test_df, valid_df))))"

record ('y, 'd) SplitStats =
  smiles_col :: string
  id_col :: string
  response_cols :: "string list"
  total_df :: dataframe
  split_df :: dataframe
  train_df :: dataframe
  test_df :: dataframe
  valid_df :: dataframe
  total_y :: 'y
  total_w :: ndarray
  train_y :: 'y
  train_w :: ndarray
  test_y :: 'y
  test_w :: ndarray
  valid_y :: 'y
  valid_w :: ndarray
  dists :: 'd
  train_fracs :: "rat option list"
  valid_fracs :: "rat option list"
  test_fracs :: "rat option list"

text \<open>
  \<open>_get_dists\<close>, on the fields it reads. \<open>calc_dist_smiles\<close> belongs to
  \<open>atomsci.ddm.pipeline.chem_diversity\<close>, another module of the toolkit: it is a
  parameter, and it may raise.
\<close>

definition get_dists ::
    "(string \<Rightarrow> string \<Rightarrow> cell list \<Rightarrow> cell list \<Rightarrow> error + 'd) \<Rightarrow>
     string \<Rightarrow> dataframe \<Rightarrow> dataframe \<Rightarrow> error + 'd" where
  "get_dists calc_dist_smiles smiles train test =
     (case getitem train smiles of
        Inl e \<Rightarrow> Inl e
      | Inr train_smiles \<Rightarrow>
          (case getitem test smiles of
             Inl e \<Rightarrow> Inl e
           | Inr test_smiles \<Rightarrow> calc_dist_smiles ''ECFP'' ''tanimoto'' train_smiles test_smiles))"

text \<open>\<open>_split_ratios\<close>, on the four weight arrays it reads.\<close>

definition split_ratios ::
    "ndarray \<Rightarrow> ndarray \<Rightarrow> ndarray \<Rightarrow> ndarray \<Rightarrow>
     rat option list \<times> rat option list \<times> rat option list" where
  "split_ratios trainw validw testw totalw =
     (let train = np_divide (np_sum_axis0 trainw) (np_sum_axis0 totalw);
          valid = np_divide (np_sum_axis0 validw) (np_sum_axis0 totalw);
          test = np_divide (np_sum_axis0 testw) (np_sum_axis0 totalw)
      in (train, valid, test))"

text \<open>
  \<open>SplitStats.__init__\<close>. \<open>make_y_w\<close> belongs to
  \<open>atomsci.ddm.pipeline.MultitaskScaffoldSplit\<close>, another module of the toolkit: it is a
  parameter that returns the response values and the weight array of a dataframe, or raises.
\<close>

definition SplitStats_init ::
    "(string \<Rightarrow> string \<Rightarrow> cell list \<Rightarrow> cell list \<Rightarrow> error + 'd) \<Rightarrow>
     (dataframe \<Rightarrow> string list \<Rightarrow> error + 'y \<times> ndarray) \<Rightarrow>
     dataframe \<Rightarrow> dataframe \<Rightarrow> string \<Rightarrow> string \<Rightarrow> string list \<Rightarrow> error + ('y, 'd) SplitStats" where
  "SplitStats_init calc_dist_smiles make_y_w total_d split_d smiles idc response =
     (case split total_d split_d idc of
        Inl e \<Rightarrow> Inl e
      | Inr (train, test, valid) \<Rightarrow>
     (case make_y_w total_d response of
        Inl e \<Rightarrow> Inl e
      | Inr (totaly, totalw) \<Rightarrow>
     (case make_y_w train response of
        Inl e \<Rightarrow> Inl e
      | Inr (trainy, trainw) \<Rightarrow>
     (case make_y_w test response of
        Inl e \<Rightarrow> Inl e
      | Inr (testy, testw) \<Rightarrow>
     (case make_y_w valid response of
        Inl e \<Rightarrow> Inl e
      | Inr (validy, validw) \<Rightarrow>
     (case get_dists calc_dist_smiles smiles train test of
        Inl e \<Rightarrow> Inl e
      | Inr d \<Rightarrow>
          (let (trainf, validf, testf) = split_ratios trainw validw testw totalw
           in Inr \<lparr>smiles_col = smiles, id_col = idc, response_cols = response,
                    total_df = total_d, split_df = split_d,
                    train_df = train, test_df = test, valid_df = valid,
                    total_y = totaly, total_w = totalw, train_y = trainy, train_w = trainw,
                    test_y = testy, test_w = testw, valid_y = validy, valid_w = validw,
                    dists = d,
                    train_fracs = trainf, valid_fracs = validf, test_fracs = testf\<rparr>)))))))"

subsection \<open>Plots and the command-line entry point\<close>

text \<open>
  Drawing is the work of matplotlib, seaborn and umap; what the model keeps is the list of
  files each method saves, in order.
\<close>

definition save_figure :: "string \<Rightarrow> string list" where
  "save_figure filename = [filename @ ''.png'', filename @ ''.svg'']"

definition dist_hist_plot :: "('y, 'd) SplitStats \<Rightarrow> string \<Rightarrow> string list" where
  "dist_hist_plot self dist_path =
     (if length dist_path > 0 then save_figure (dist_path @ ''_dist_hist'') else [])"

definition umap_plot :: "('y, 'd) SplitStats \<Rightarrow> string \<Rightarrow> string list" where
  "umap_plot self dist_path =
     (if length dist_path > 0 then save_figure (dist_path @ ''_umap_scatter'') else [])"

definition subset_frac_plot :: "('y, 'd) SplitStats \<Rightarrow> string \<Rightarrow> string list" where
  "subset_frac_plot self dist_path =
     (if length dist_path > 0 then save_figure (dist_path @ ''_frac_box'') else [])"

definition make_all_plots :: "('y, 'd) SplitStats \<Rightarrow> string \<Rightarrow> string list" where
  "make_all_plots self dist_path =
     dist_hist_plot self dist_path @ umap_plot self dist_path @ subset_frac_plot self dist_path"

text \<open>
  A call \<open>SplitStats(...)\<close> binds its positional and keyword arguments to the parameters of
  \<open>__init__\<close> after \<open>self\<close>, none of which has a default. Python raises \<open>TypeError\<close> when
  there are too many positional arguments, when a keyword names no parameter or one already
  filled by position, and when a parameter is left without a value. An argument of another
  kind than the body uses is outside what the script does; \<open>TypeError\<close> stands for it.
\<close>

datatype arg = ADataFrame dataframe | AString string | AStrings "string list"

definition SplitStats_parameters :: "string list" where
  "SplitStats_parameters = [''total_df'', ''split_df'', ''smiles_col'', ''id_col'', ''response_cols'']"

definition bind_arguments ::
    "string list \<Rightarrow> arg list \<Rightarrow> (string \<times> arg) list \<Rightarrow> error + (string \<times> arg) list" where
  "bind_arguments params positional keywords =
     (if length params < length positional then Inl TypeError
      else if list_ex (\<lambda>k. k \<notin> set params \<or> k \<in> set (take (length positional) params))
                (map fst keywords) then Inl TypeError
      else (let bound = zip params positional @ keywords in
            if list_all (\<lambda>p. p \<in> set (map fst bound)) params then Inr bound
            else Inl TypeError))"

definition SplitStats_call ::
    "(string \<Rightarrow> string \<Rightarrow> cell list \<Rightarrow> cell list \<Rightarrow> error + 'd) \<Rightarrow>
     (dataframe \<Rightarrow> string list \<Rightarrow> error + 'y \<times> ndarray) \<Rightarrow>
     arg list \<Rightarrow> (string \<times> arg) list \<Rightarrow> error + ('y, 'd) SplitStats" where
  "SplitStats_call calc_dist_smiles make_y_w positional keywords =
     (case bind_arguments SplitStats_parameters positional keywords of
        Inl e \<Rightarrow> Inl e
      | Inr bound \<Rightarrow>
          (case (map_of bound ''total_df'', map_of bound ''split_df'', map_of bound ''smiles_col'',
                 map_of bound ''id_col'', map_of bound ''response_cols'') of
             (Some (ADataFrame t), Some (ADataFrame s), Some (AString sm), Some (AString i),
              Some (AStrings r)) \<Rightarrow> SplitStats_init calc_dist_smiles make_y_w t s sm i r
           | _ \<Rightarrow> Inl TypeError))"

record arguments =
  arg_csv :: string
  arg_id_col :: string
  arg_smiles_col :: string
  arg_split_a :: string
  arg_split_b :: string
  arg_output_dir :: string

text \<open>
  The block under \<open>if __name__ == '__main__'\<close>, after \<open>parse_args\<close>. \<open>read_csv\<close> is
  \<open>pd.read_csv\<close>, a parameter that gives the dataframe of a path or raises. The result is
  the exception that ends the run, if any, and the files saved up to that point.
\<close>

definition main ::
    "(string \<Rightarrow> error + dataframe) \<Rightarrow>
     (string \<Rightarrow> string \<Rightarrow> cell list \<Rightarrow> cell list \<Rightarrow> error + 'd) \<Rightarrow>
     (dataframe \<Rightarrow> string list \<Rightarrow> error + 'y \<times> ndarray) \<Rightarrow>
     arguments \<Rightarrow> (error + unit) \<times> string list" where
  "main read_csv calc_dist_smiles make_y_w args =
     (case read_csv (arg_csv args) of
        Inl e \<Rightarrow> (Inl e, [])
      | Inr df \<Rightarrow>
     (case read_csv (arg_split_a args) of
        Inl e \<Rightarrow> (Inl e, [])
      | Inr split_a \<Rightarrow>
     (case SplitStats_call calc_dist_smiles make_y_w [ADataFrame df, ADataFrame split_a]
             [(''smiles_col'', AString (arg_smiles_col args)), (''id_col'', AString (arg_id_col args))] of
        Inl e \<Rightarrow> (Inl e, [])
      | Inr ss \<Rightarrow>
          (let saved_a = make_all_plots ss (os_path_join (arg_output_dir args) ''split_a'') in
     (case read_csv (arg_split_b args) of
        Inl e \<Rightarrow> (Inl e, saved_a)
      | Inr split_b \<Rightarrow>
     (case SplitStats_call calc_dist_smiles make_y_w [ADataFrame df, ADataFrame split_b]
             [(''smiles_col'', AString (arg_smiles_col args)), (''id_col'', AString (arg_id_col args))] of
        Inl e \<Rightarrow> (Inl e, saved_a)
      | Inr ss' \<Rightarrow>
          (Inr (),
           saved_a @ make_all_plots ss' (os_path_join (arg_output_dir args) ''split_b''))))))))"

text \<open>
  \<open>labelled sd label\<close>: the identifiers that the split dataframe \<open>sd\<close> gives the label.
\<close>

definition labelled :: "dataframe \<Rightarrow> string \<Rightarrow> cell set" where
  "labelled sd label =
     (\<lambda>s. cell_of s ''cmpd_id'') ` {s \<in> set (rows sd). cell_of s ''subset'' = Str label}"

subsection \<open>A small dataset and a split of it, used as concrete inputs\<close>

definition example_df :: dataframe where
  "example_df = \<lparr>columns = [''compound_id'', ''smiles'', ''pIC50''],
                 rows = [[(''compound_id'', Str ''c1''), (''smiles'', Str ''CCO''), (''pIC50'', Num 5)],
                         [(''compound_id'', Str ''c2''), (''smiles'', Str ''CCN''), (''pIC50'', NaN)],
                         [(''compound_id'', Str ''c3''), (''smiles'', Str ''CCC''), (''pIC50'', Num 7)],
                         [(''compound_id'', Str ''c4''), (''smiles'', Str ''COC''), (''pIC50'', Num 6)]]\<rparr>"

definition example_split :: dataframe where
  "example_split = \<lparr>columns = [''cmpd_id'', ''subset'', ''fold''],
                    rows = [[(''cmpd_id'', Str ''c1''), (''subset'', Str ''train''), (''fold'', Num 0)],
                            [(''cmpd_id'', Str ''c2''), (''subset'', Str ''valid''), (''fold'', Num 0)],
                            [(''cmpd_id'', Str ''c3''), (''subset'', Str ''test''), (''fold'', Num 0)],
                            [(''cmpd_id'', Str ''c4''), (''subset'', Str ''train''), (''fold'', Num 0)]]\<rparr>"

text \<open>
  Stand-ins for the three parameters: the files \<open>read_csv\<close> finds, a distance routine that
  pairs every train value with every test value, and weights that are one where a response
  has a value and zero where it is missing.
\<close>

definition example_read_csv :: "string \<Rightarrow> error + dataframe" where
  "example_read_csv p =
     (if p = ''data.csv'' then Inr example_df
      else if p = ''split_a.csv'' \<or> p = ''split_b.csv'' then Inr example_split
      else Inl FileNotFoundError)"

definition example_dist :: "string \<Rightarrow> string \<Rightarrow> cell list \<Rightarrow> cell list \<Rightarrow> error + (cell \<times> cell) list" where
  "example_dist feat metric xs ys = Inr (List.product xs ys)"

definition example_make_y_w :: "dataframe \<Rightarrow> string list \<Rightarrow> error + cell list list \<times> ndarray" where
  "example_make_y_w df cols =
     Inr (map (\<lambda>r. map (cell_of r) cols) (rows df),
          (length cols, map (\<lambda>r. map (\<lambda>c. if cell_of r c = NaN then 0 else 1) cols) (rows df)))"

section \<open>Properties of model_version_utils.py\<close>

lemma take3_nonempty: "take 3 a = take 3 b \<Longrightarrow> (a = []) = (b = [])"
  by (cases a; cases b) auto

text \<open>
  Claim C3. When the metadata file parses to an object whose \<open>model_parameters\<close> entry is
  an object, \<open>get_ampl_version_from_json\<close> returns the value bound to \<open>ampl_version\<close>
  in it, and the string \<open>probably 1.0.0\<close> when that key is absent.
\<close>

theorem get_ampl_version_from_json_value:
  assumes "map_of (files w) p = Some (Plain (Json (JObj kvs)))"
      and "map_of kvs ''model_parameters'' = Some (JObj ps)"
  shows "(\<forall>v. map_of ps ''ampl_version'' = Some v \<longrightarrow> get_ampl_version_from_json w p = Inr v) \<and>
         (map_of ps ''ampl_version'' = None \<longrightarrow>
            get_ampl_version_from_json w p = Inr (JStr ''probably 1.0.0''))"
  using assms by (simp add: get_ampl_version_from_json_def)

text \<open>
  Claim C5. Two inputs made of digits and periods, neither the path of a file, that agree on
  their first three characters give the same outcome under the same installed version and the
  same \<open>ignore_check\<close>: the same value or the same error, and the same file system.
\<close>

theorem check_version_compatible_prefix_only:
  assumes "\<not> isfile w a" and "\<not> isfile w b"
      and "list_all version_pattern_class a" and "list_all version_pattern_class b"
      and "take 3 a = take 3 b"
  shows "check_version_compatible w a ignore_check = check_version_compatible w b ignore_check"
  using assms take3_nonempty[of a b]
  by (simp add: check_version_compatible_def validate_version_def)

text \<open>
  Claim C9, amended. On an input that is not the path of a file:
  \<open>ValueError\<close> when the string is empty or holds a character other than a digit or a
  period; \<open>KeyError\<close> for a non-empty string of digits and periods whose first three
  characters are not a key of the table; and when both prefixes are keys of different groups,
  \<open>ValueError\<close> if \<open>ignore_check\<close> is false and the value \<open>False\<close> if it is true.
\<close>

theorem check_version_compatible_errors:
  assumes "\<not> isfile w input"
  shows "(input = [] \<or> \<not> list_all version_pattern_class input \<longrightarrow>
            fst (check_version_compatible w input ignore_check) = Inl ValueError) \<and>
         (input \<noteq> [] \<and> list_all version_pattern_class input \<and>
          comp_dict (take 3 input) = None \<longrightarrow>
            fst (check_version_compatible w input ignore_check) = Inl KeyError) \<and>
         (input \<noteq> [] \<and> list_all version_pattern_class input \<and>
          comp_dict (take 3 (installed w)) = Some g \<and> comp_dict (take 3 input) = Some g' \<and>
          g \<noteq> g' \<longrightarrow>
            fst (check_version_compatible w input False) = Inl ValueError \<and>
            fst (check_version_compatible w input True) = Inr False)"
  using assms
  by (auto simp: check_version_compatible_def validate_version_def compare_groups_def
      get_ampl_version_def Let_def split: option.splits)

theorem get_ampl_version_from_json_value_witness:
  "get_ampl_version_from_json
     \<lparr>files = [(''/t/model_metadata.json'',
                 Plain (Json (JObj [(''model_parameters'', JObj [(''ampl_version'', JStr ''1.4.1'')])]))),
               (''/u/model_metadata.json'',
                 Plain (Json (JObj [(''model_parameters'', JObj [(''model_type'', JStr ''NN'')])])))],
      dirs = [''/t'', ''/u''], installed = ''1.5.0''\<rparr> ''/t/model_metadata.json'' = Inr (JStr ''1.4.1'') \<and>
   get_ampl_version_from_json
     \<lparr>files = [(''/t/model_metadata.json'',
                 Plain (Json (JObj [(''model_parameters'', JObj [(''ampl_version'', JStr ''1.4.1'')])]))),
               (''/u/model_metadata.json'',
                 Plain (Json (JObj [(''model_parameters'', JObj [(''model_type'', JStr ''NN'')])])))],
      dirs = [''/t'', ''/u''], installed = ''1.5.0''\<rparr> ''/u/model_metadata.json'' = Inr (JStr ''probably 1.0.0'')"
proof -
  let ?w = "\<lparr>files = [(''/t/model_metadata.json'',
                 Plain (Json (JObj [(''model_parameters'', JObj [(''ampl_version'', JStr ''1.4.1'')])]))),
               (''/u/model_metadata.json'',
                 Plain (Json (JObj [(''model_parameters'', JObj [(''model_type'', JStr ''NN'')])])))],
      dirs = [''/t'', ''/u''], installed = ''1.5.0''\<rparr>"
  have t: "map_of (files ?w) ''/t/model_metadata.json'' =
      Some (Plain (Json (JObj [(''model_parameters'', JObj [(''ampl_version'', JStr ''1.4.1'')])])))"
    by simp
  have u: "map_of (files ?w) ''/u/model_metadata.json'' =
      Some (Plain (Json (JObj [(''model_parameters'', JObj [(''model_type'', JStr ''NN'')])])))"
    by simp
  have mp: "map_of [(''model_parameters'', JObj [(''ampl_version'', JStr ''1.4.1'')])] ''model_parameters''
      = Some (JObj [(''ampl_version'', JStr ''1.4.1'')])"
    by simp
  have mp': "map_of [(''model_parameters'', JObj [(''model_type'', JStr ''NN'')])] ''model_parameters''
      = Some (JObj [(''model_type'', JStr ''NN'')])"
    by simp
  show ?thesis
    using get_ampl_version_from_json_value [OF t mp] get_ampl_version_from_json_value [OF u mp'] by simp
qed

theorem check_version_compatible_prefix_only_witness:
  "\<not> isfile \<lparr>files = [], dirs = [], installed = ''1.5.0''\<rparr> ''1.4.0'' \<and>
   \<not> isfile \<lparr>files = [], dirs = [], installed = ''1.5.0''\<rparr> ''1.4.17.3'' \<and>
   list_all version_pattern_class ''1.4.0'' \<and> list_all version_pattern_class ''1.4.17.3'' \<and>
   take 3 ''1.4.0'' = take 3 ''1.4.17.3'' \<and>
   check_version_compatible \<lparr>files = [], dirs = [], installed = ''1.5.0''\<rparr> ''1.4.0'' False =
   check_version_compatible \<lparr>files = [], dirs = [], installed = ''1.5.0''\<rparr> ''1.4.17.3'' False"
proof -
  let ?w = "\<lparr>files = [], dirs = [], installed = ''1.5.0''\<rparr>"
  have a: "\<not> isfile ?w ''1.4.0''" and b: "\<not> isfile ?w ''1.4.17.3''"
    by (simp_all add: isfile_def)
  have c: "list_all version_pattern_class ''1.4.0''"
    and d: "list_all version_pattern_class ''1.4.17.3''"
    by (simp_all add: version_pattern_class_def is_digit_def)
  have e: "take 3 ''1.4.0'' = take 3 ''1.4.17.3''"
    by simp
  show ?thesis
    using a b c d e check_version_compatible_prefix_only [OF a b c d e, of False] by simp
qed

text \<open>
  Claim C9 as written fails on the empty string: no character of it is outside the class and
  its prefix is not a key of the table, yet \<open>[\d.]+\<close> needs one character, so the error
  is \<open>ValueError\<close> and not \<open>KeyError\<close>.
\<close>

theorem check_version_compatible_empty_input:
  "\<not> isfile \<lparr>files = [], dirs = [], installed = ''1.5.0''\<rparr> [] \<and>
   list_all version_pattern_class [] \<and>
   comp_dict (take 3 []) = None \<and>
   fst (check_version_compatible \<lparr>files = [], dirs = [], installed = ''1.5.0''\<rparr> [] False)
     = Inl ValueError \<and>
   fst (check_version_compatible \<lparr>files = [], dirs = [], installed = ''1.5.0''\<rparr> [] False)
     \<noteq> Inl KeyError"
  by (simp add: isfile_def comp_dict_def check_version_compatible_def validate_version_def)

theorem check_version_compatible_errors_witness:
  "\<not> isfile \<lparr>files = [], dirs = [], installed = ''1.5.0''\<rparr> ''1.4x'' \<and>
   \<not> list_all version_pattern_class ''1.4x'' \<and>
   fst (check_version_compatible \<lparr>files = [], dirs = [], installed = ''1.5.0''\<rparr> ''1.4x'' True)
     = Inl ValueError \<and>
   \<not> isfile \<lparr>files = [], dirs = [], installed = ''1.5.0''\<rparr> ''1.10'' \<and>
   list_all version_pattern_class ''1.10'' \<and> comp_dict (take 3 ''1.10'') = None \<and>
   fst (check_version_compatible \<lparr>files = [], dirs = [], installed = ''1.5.0''\<rparr> ''1.10'' True)
     = Inl KeyError \<and>
   \<not> isfile \<lparr>files = [], dirs = [], installed = ''1.5.0''\<rparr> ''1.3.9'' \<and>
   list_all version_pattern_class ''1.3.9'' \<and>
   comp_dict (take 3 ''1.5.0'') = Some ''group2'' \<and> comp_dict (take 3 ''1.3.9'') = Some ''group1'' \<and>
   fst (check_version_compatible \<lparr>files = [], dirs = [], installed = ''1.5.0''\<rparr> ''1.3.9'' False)
     = Inl ValueError \<and>
   fst (check_version_compatible \<lparr>files = [], dirs = [], installed = ''1.5.0''\<rparr> ''1.3.9'' True)
     = Inr False"
proof -
  let ?w = "\<lparr>files = [], dirs = [], installed = ''1.5.0''\<rparr>"
  have f: "\<not> isfile ?w ''1.4x''" "\<not> isfile ?w ''1.10''" "\<not> isfile ?w ''1.3.9''"
    by (simp_all add: isfile_def)
  have p: "\<not> list_all version_pattern_class ''1.4x''" "list_all version_pattern_class ''1.10''"
      "list_all version_pattern_class ''1.3.9''"
    by (simp_all add: version_pattern_class_def is_digit_def)
  have k: "comp_dict (take 3 ''1.10'') = None" "comp_dict (take 3 ''1.5.0'') = Some ''group2''"
      "comp_dict (take 3 ''1.3.9'') = Some ''group1''"
    by (simp_all add: comp_dict_def)
  show ?thesis
    using f p k
      check_version_compatible_errors [OF f(1), of True "''group2''" "''group1''"]
      check_version_compatible_errors [OF f(2), of True "''group2''" "''group1''"]
      check_version_compatible_errors [OF f(3), of True "''group2''" "''group1''"]
    by simp
qed

subsection \<open>Facts about the file system\<close>

lemma fold_max_ge: "(a::nat) \<le> fold max xs a"
  by (induction xs arbitrary: a) (auto intro: order_trans [OF max.cobounded2])

lemma fold_max_mem: "x \<in> set xs \<Longrightarrow> (x::nat) \<le> fold max xs a"
proof (induction xs arbitrary: a)
  case Nil
  then show ?case by simp
next
  case (Cons y ys)
  show ?case
  proof (cases "x = y")
    case True
    have "x \<le> max y a" using True by simp
    also have "\<dots> \<le> fold max ys (max y a)" by (rule fold_max_ge)
    finally show ?thesis by simp
  next
    case False
    with Cons show ?thesis by simp
  qed
qed

lemma longest_file: "map_of (files w) p = Some x \<Longrightarrow> length p \<le> longest w"
  unfolding longest_def
  by (rule fold_max_mem) (auto dest!: map_of_SomeD intro!: image_eqI [where x = p] simp: rev_image_eqI)


lemma mkdtemp_length: "longest w < length (fst (mkdtemp w))"
  by (simp add: mkdtemp_def Let_def)

lemma mkdtemp_world: "snd (mkdtemp w) = w\<lparr>dirs := fst (mkdtemp w) # dirs w\<rparr>"
  by (simp add: mkdtemp_def Let_def)


lemma mkdtemp_no_file_under: "map_of (files w) p = Some x \<Longrightarrow> \<not> prefix (fst (mkdtemp w)) p"
  using longest_file [of w p x] mkdtemp_length [of w] by (auto dest: prefix_length_le)

lemma extractall_files:
  "files (extractall w d ms) = rev (map (\<lambda>(n, t). (member_path d n, Plain t)) ms) @ files w"
proof -
  have "fold (\<lambda>(n, t) fs. (member_path d n, Plain t) # fs) ms fs
          = rev (map (\<lambda>(n, t). (member_path d n, Plain t)) ms) @ fs" for fs
    by (induction ms arbitrary: fs) (auto split: prod.splits)
  then show ?thesis by (simp add: extractall_def)
qed


lemma map_of_joined_other:
  "\<not> prefix d p \<Longrightarrow> map_of (map (\<lambda>(n, t). (member_path d n, Plain t)) xs) p = None"
  by (induction xs) (auto simp: member_path_def)


lemma extracted_other:
  "\<not> prefix d p \<Longrightarrow> map_of (files (extractall w d ms)) p = map_of (files w) p"
  by (simp add: extractall_files map_add_def rev_map map_of_joined_other)









lemma model_keeps: "keeps w (snd (get_ampl_version_from_model w f))"
proof -
  let ?d = "fst (mkdtemp w)"
  let ?w1 = "snd (mkdtemp w)"
  have k1: "keeps w ?w1" by (simp add: keeps_def mkdtemp_world)
  have k2: "keeps w (extractall ?w1 ?d ms)" for ms
    unfolding keeps_def
  proof (intro conjI allI impI)
    show "installed (extractall ?w1 ?d ms) = installed w"
      by (simp add: extractall_def mkdtemp_world)
  next
    fix p x assume px: "map_of (files w) p = Some x"
    then have "\<not> prefix ?d p" by (rule mkdtemp_no_file_under)
    then show "map_of (files (extractall ?w1 ?d ms)) p = Some x"
      using px by (simp add: extracted_other mkdtemp_world)
  qed
  show ?thesis
    using k1 k2
    by (simp add: get_ampl_version_from_model_def Let_def case_prod_beta split: sum.splits)
qed








lemma compare_groups_keeps: "keeps w w' \<Longrightarrow> compare_groups w' m i = compare_groups w m i"
  by (simp add: keeps_def compare_groups_def get_ampl_version_def)


lemmas eval_model = get_ampl_version_from_model_def mkdtemp_def longest_def tarfile_open_def
     extractall_def os_path_join_def member_path_def get_ampl_version_from_json_def Let_def


subsection \<open>Reading an archive, comparing groups, scanning a directory\<close>





text \<open>
  Claim check_version_compatible_same_group. For an input of digits and periods that is not the path of a file, whose first
  three characters are a key of \<open>comp_dict\<close>, with the first three characters of the
  installed version a key as well, \<open>check_version_compatible\<close> returns \<open>True\<close> exactly
  when the two keys have the same group. For the path of a file from which
  \<open>get_ampl_version_from_model\<close> reads the version string \<open>s\<close>, the version compared is
  \<open>s.strip()[:3]\<close>, and again the result is \<open>True\<close> exactly when the groups agree.
\<close>

theorem check_version_compatible_same_group:
  "(\<not> isfile w input \<and> list_all version_pattern_class input \<and>
    comp_dict (take 3 input) = Some g' \<and> comp_dict (take 3 (installed w)) = Some g \<longrightarrow>
      (fst (check_version_compatible w input ignore_check) = Inr True) = (g = g')) \<and>
   (isfile w input \<and> fst (get_ampl_version_from_model w input) = Inr (JStr s) \<longrightarrow>
      fst (check_version_compatible w input ignore_check) =
        compare_groups w (take 3 (strip s)) ignore_check) \<and>
   (isfile w input \<and> fst (get_ampl_version_from_model w input) = Inr (JStr s) \<and>
    comp_dict (take 3 (strip s)) = Some g' \<and> comp_dict (take 3 (installed w)) = Some g \<longrightarrow>
      (fst (check_version_compatible w input ignore_check) = Inr True) = (g = g'))"
proof (intro conjI impI)
  assume "\<not> isfile w input \<and> list_all version_pattern_class input \<and>
    comp_dict (take 3 input) = Some g' \<and> comp_dict (take 3 (installed w)) = Some g"
  then show "(fst (check_version_compatible w input ignore_check) = Inr True) = (g = g')"
    by (auto simp: check_version_compatible_def validate_version_def compare_groups_def
        get_ampl_version_def comp_dict_def split: if_splits)
next
  assume a: "isfile w input \<and> fst (get_ampl_version_from_model w input) = Inr (JStr s)"
  obtain w' where g: "get_ampl_version_from_model w input = (Inr (JStr s), w')"
    using a by (cases "get_ampl_version_from_model w input") simp
  have "keeps w w'" using model_keeps [of w input] g by simp
  then show "fst (check_version_compatible w input ignore_check) =
        compare_groups w (take 3 (strip s)) ignore_check"
    using a g by (simp add: check_version_compatible_def compare_groups_keeps)
next
  assume a: "isfile w input \<and> fst (get_ampl_version_from_model w input) = Inr (JStr s) \<and>
    comp_dict (take 3 (strip s)) = Some g' \<and> comp_dict (take 3 (installed w)) = Some g"
  obtain w' where g: "get_ampl_version_from_model w input = (Inr (JStr s), w')"
    using a by (cases "get_ampl_version_from_model w input") simp
  have "keeps w w'" using model_keeps [of w input] g by simp
  then have "fst (check_version_compatible w input ignore_check) =
        compare_groups w (take 3 (strip s)) ignore_check"
    using a g by (simp add: check_version_compatible_def compare_groups_keeps)
  then show "(fst (check_version_compatible w input ignore_check) = Inr True) = (g = g')"
    using a by (auto simp: compare_groups_def get_ampl_version_def Let_def split: if_splits)
qed

theorem check_version_compatible_same_group_witness:
  "\<not> isfile models_dir ''1.4.2'' \<and> list_all version_pattern_class ''1.4.2'' \<and>
   comp_dict (take 3 ''1.4.2'') = Some ''group2'' \<and> installed models_dir = ''1.5.0'' \<and>
   comp_dict (take 3 ''1.5.0'') = Some ''group2'' \<and>
   fst (check_version_compatible models_dir ''1.4.2'' False) = Inr True \<and>
   isfile models_dir ''/m/a.tar.gz'' \<and>
   fst (get_ampl_version_from_model models_dir ''/m/a.tar.gz'') = Inr (JStr '' 1.4.1'') \<and>
   take 3 (strip '' 1.4.1'') = ''1.4'' \<and>
   fst (check_version_compatible models_dir ''/m/a.tar.gz'' False) =
     compare_groups models_dir ''1.4'' False \<and>
   fst (check_version_compatible models_dir ''/m/a.tar.gz'' False) = Inr True"
proof -
  have a: "\<not> isfile models_dir ''1.4.2''" "isfile models_dir ''/m/a.tar.gz''"
    by (simp_all add: isfile_def models_dir_def)
  have b: "list_all version_pattern_class ''1.4.2''"
    by (simp add: version_pattern_class_def is_digit_def)
  have c: "comp_dict (take 3 ''1.4.2'') = Some ''group2''"
      "comp_dict (take 3 ''1.5.0'') = Some ''group2''"
    by (simp_all add: comp_dict_def)
  have d: "installed models_dir = ''1.5.0''"
    by (simp add: models_dir_def)
  have e: "fst (get_ampl_version_from_model models_dir ''/m/a.tar.gz'') = Inr (JStr '' 1.4.1'')"
    by (simp add: models_dir_def eval_model)
  have f: "take 3 (strip '' 1.4.1'') = ''1.4''"
    by (simp add: strip_def is_space_def)
  note t1 = check_version_compatible_same_group [of models_dir "''1.4.2''" "''group2''" "''group2''" False "'' 1.4.1''"]
  note t2 = check_version_compatible_same_group [of models_dir "''/m/a.tar.gz''" "''group2''" "''group2''" False "'' 1.4.1''"]
  have i: "comp_dict (take 3 (installed models_dir)) = Some ''group2''"
    using c(2) d by simp
  have r1: "fst (check_version_compatible models_dir ''1.4.2'' False) = Inr True"
    using t1 a(1) b c(1) i by blast
  have r2: "fst (check_version_compatible models_dir ''/m/a.tar.gz'' False) =
     compare_groups models_dir (take 3 (strip '' 1.4.1'')) False"
    using t2 a(2) e by blast
  have c': "comp_dict (take 3 (strip '' 1.4.1'')) = Some ''group2''"
    using c(1) f by simp
  have r3: "fst (check_version_compatible models_dir ''/m/a.tar.gz'' False) = Inr True"
    using t2 a(2) e c' i by blast
  show ?thesis
    using a b c d e f r1 r2 [unfolded f] r3 by (intro conjI)
qed




section \<open>Properties of compare_splits_plots.py\<close>

lemma mask_filter: "map fst (filter snd (zip xs (map P xs))) = filter P xs"
  by (induction xs) auto

lemma select_subset_rows:
  assumes "idc \<in> set (columns td)" and "''subset'' \<in> set (columns sd)"
      and "''cmpd_id'' \<in> set (columns sd)"
  shows "select_subset td sd idc label =
           Inr (td\<lparr>rows := filter (\<lambda>r. cell_of r idc \<in> labelled sd label) (rows td)\<rparr>)"
proof -
  let ?F = "filter (\<lambda>s. cell_of s ''subset'' = Str label) (rows sd)"
  have g1: "getitem td idc = Inr (map (\<lambda>r. cell_of r idc) (rows td))"
    using assms(1) by (simp add: getitem_def)
  have g2: "getitem sd ''subset'' = Inr (map (\<lambda>r. cell_of r ''subset'') (rows sd))"
    using assms(2) by (simp add: getitem_def)
  have m: "getitem_mask sd (map (\<lambda>v. v = Str label) (map (\<lambda>r. cell_of r ''subset'') (rows sd)))
             = sd\<lparr>rows := ?F\<rparr>"
    using mask_filter [of "rows sd" "\<lambda>s. cell_of s ''subset'' = Str label"]
    by (simp add: getitem_mask_def comp_def)
  have g3: "getitem (sd\<lparr>rows := ?F\<rparr>) ''cmpd_id'' = Inr (map (\<lambda>r. cell_of r ''cmpd_id'') ?F)"
    using assms(3) by (simp add: getitem_def)
  have s: "set (map (\<lambda>r. cell_of r ''cmpd_id'') ?F) = labelled sd label"
    by (auto simp: labelled_def)
  have i: "isin (map (\<lambda>r. cell_of r idc) (rows td)) (map (\<lambda>r. cell_of r ''cmpd_id'') ?F)
             = map (\<lambda>r. cell_of r idc \<in> labelled sd label) (rows td)"
    unfolding isin_def s [symmetric] by (simp add: comp_def)
  have r: "getitem_mask td (map (\<lambda>r. cell_of r idc \<in> labelled sd label) (rows td))
             = td\<lparr>rows := filter (\<lambda>r. cell_of r idc \<in> labelled sd label) (rows td)\<rparr>"
    unfolding getitem_mask_def mask_filter ..
  show ?thesis
    unfolding select_subset_def g1 g2 sum.case m g3 i r ..
qed

lemma split_rows:
  assumes "idc \<in> set (columns td)" and "''subset'' \<in> set (columns sd)"
      and "''cmpd_id'' \<in> set (columns sd)"
  shows "split td sd idc =
           Inr (td\<lparr>rows := filter (\<lambda>r. cell_of r idc \<in> labelled sd ''train'') (rows td)\<rparr>,
                td\<lparr>rows := filter (\<lambda>r. cell_of r idc \<in> labelled sd ''test'') (rows td)\<rparr>,
                td\<lparr>rows := filter (\<lambda>r. cell_of r idc \<in> labelled sd ''valid'') (rows td)\<rparr>)"
  by (simp add: split_def select_subset_rows [OF assms])

lemma labelled_once:
  assumes "distinct (map (\<lambda>s. cell_of s ''cmpd_id'') (rows sd))"
      and "s \<in> set (rows sd)" and "cell_of s ''subset'' = Str l"
  shows "cell_of s ''cmpd_id'' \<in> labelled sd l' \<longleftrightarrow> l' = l"
proof
  assume "cell_of s ''cmpd_id'' \<in> labelled sd l'"
  then obtain s' where s': "s' \<in> set (rows sd)" "cell_of s' ''subset'' = Str l'"
      "cell_of s' ''cmpd_id'' = cell_of s ''cmpd_id''"
    by (auto simp: labelled_def)
  have "inj_on (\<lambda>s. cell_of s ''cmpd_id'') (set (rows sd))"
    using assms(1) by (simp add: distinct_map)
  then have "s' = s" using s' assms(2) by (auto dest: inj_onD)
  then show "l' = l" using s'(2) assms(3) by simp
next
  assume "l' = l"
  then show "cell_of s ''cmpd_id'' \<in> labelled sd l'"
    using assms(2,3) by (auto simp: labelled_def)
qed


lemma SplitStats_init_fields:
  assumes "SplitStats_init cd mk td sd smiles idc resp = Inr ss"
  shows "split td sd idc = Inr (train_df ss, test_df ss, valid_df ss)"
    and "mk td resp = Inr (total_y ss, total_w ss)"
    and "mk (train_df ss) resp = Inr (train_y ss, train_w ss)"
    and "mk (test_df ss) resp = Inr (test_y ss, test_w ss)"
    and "mk (valid_df ss) resp = Inr (valid_y ss, valid_w ss)"
    and "get_dists cd smiles (train_df ss) (test_df ss) = Inr (dists ss)"
    and "split_ratios (train_w ss) (valid_w ss) (test_w ss) (total_w ss)
           = (train_fracs ss, valid_fracs ss, test_fracs ss)"
    and "smiles_col ss = smiles" and "total_df ss = td" and "response_cols ss = resp"
  using assms
  by (auto simp: SplitStats_init_def split: sum.splits prod.splits)


lemma sum_rows:
  "np_sum_axis0 (length cols, map (\<lambda>r. map (wt r) cols) rs)
     = map (\<lambda>c. sum_list (map (\<lambda>r. wt r c) rs)) cols"
proof (induction rs)
  case Nil
  show ?case by (simp add: np_sum_axis0_def map_replicate_const)
next
  case (Cons r rs)
  have "map2 (+) (map (wt r) cols) (map (\<lambda>c. sum_list (map (\<lambda>r. wt r c) rs)) cols)
          = map (\<lambda>c. wt r c + sum_list (map (\<lambda>r. wt r c) rs)) cols"
    by (induction cols) auto
  with Cons show ?case by (simp add: np_sum_axis0_def)
qed

lemma sum_list_mset: "sum_list (map f xs) = sum_mset (image_mset f (mset xs))"
  by (induction xs) auto

lemma np_divide_nth:
  assumes "length xs = length ys" and "j < length ys"
  shows "np_divide xs ys ! j = (if ys ! j = 0 then None else Some (xs ! j / ys ! j))"
  using assms by (simp add: np_divide_def)


lemma SplitStats_call_missing:
  "SplitStats_call cd mk [a, b] [(''smiles_col'', c), (''id_col'', d)] = Inl TypeError"
  by (simp add: SplitStats_call_def bind_arguments_def SplitStats_parameters_def)


lemmas eval_split = split_def select_subset_def getitem_def getitem_mask_def isin_def cell_of_def
  example_df_def example_split_def


lemma example_subsets:
  assumes "split example_df example_split ''compound_id'' = Inr (a, b, c)"
  shows "a = example_df\<lparr>rows := [[(''compound_id'', Str ''c1''), (''smiles'', Str ''CCO''), (''pIC50'', Num 5)],
                               [(''compound_id'', Str ''c4''), (''smiles'', Str ''COC''), (''pIC50'', Num 6)]]\<rparr>"
    and "b = example_df\<lparr>rows := [[(''compound_id'', Str ''c3''), (''smiles'', Str ''CCC''), (''pIC50'', Num 7)]]\<rparr>"
    and "c = example_df\<lparr>rows := [[(''compound_id'', Str ''c2''), (''smiles'', Str ''CCN''), (''pIC50'', NaN)]]\<rparr>"
  using assms by (auto simp: eval_split)

lemma example_init:
  "\<exists>ss. SplitStats_init example_dist example_make_y_w example_df example_split
          ''smiles'' ''compound_id'' [''pIC50''] = Inr ss"
  by (simp add: SplitStats_init_def eval_split example_make_y_w_def get_dists_def
      example_dist_def split_ratios_def Let_def)


text \<open>
  Claim split_by_label. When \<open>total_df\<close> has the identifier column, \<open>split_df\<close> has the columns
  \<open>cmpd_id\<close> and \<open>subset\<close>, and no identifier occurs twice in \<open>split_df\<close>, \<open>split\<close>
  returns three dataframes: a row of \<open>total_df\<close> whose identifier is labelled \<open>train\<close> is in
  the first and in no other, one labelled \<open>test\<close> is in the second and in no other, one
  labelled \<open>valid\<close> is in the third and in no other; a row whose identifier \<open>split_df\<close> does
  not list is in none; and the three have no row in common. Labels other than the three may
  occur in \<open>split_df\<close> without harm, so they are not excluded.
\<close>

theorem split_by_label:
  assumes "idc \<in> set (columns td)" and "''subset'' \<in> set (columns sd)"
      and "''cmpd_id'' \<in> set (columns sd)"
      and "distinct (map (\<lambda>s. cell_of s ''cmpd_id'') (rows sd))"
  shows "\<exists>train test valid.
           split td sd idc = Inr (train, test, valid) \<and>
           (\<forall>r \<in> set (rows td). \<forall>s \<in> set (rows sd).
              cell_of s ''cmpd_id'' = cell_of r idc \<longrightarrow>
                (cell_of s ''subset'' = Str ''train'' \<longrightarrow>
                   r \<in> set (rows train) \<and> r \<notin> set (rows test) \<and> r \<notin> set (rows valid)) \<and>
                (cell_of s ''subset'' = Str ''test'' \<longrightarrow>
                   r \<notin> set (rows train) \<and> r \<in> set (rows test) \<and> r \<notin> set (rows valid)) \<and>
                (cell_of s ''subset'' = Str ''valid'' \<longrightarrow>
                   r \<notin> set (rows train) \<and> r \<notin> set (rows test) \<and> r \<in> set (rows valid))) \<and>
           (\<forall>r \<in> set (rows td).
              cell_of r idc \<notin> (\<lambda>s. cell_of s ''cmpd_id'') ` set (rows sd) \<longrightarrow>
                r \<notin> set (rows train) \<and> r \<notin> set (rows test) \<and> r \<notin> set (rows valid)) \<and>
           set (rows train) \<inter> set (rows test) = {} \<and>
           set (rows train) \<inter> set (rows valid) = {} \<and>
           set (rows test) \<inter> set (rows valid) = {}"
proof -
  let ?sel = "\<lambda>l. td\<lparr>rows := filter (\<lambda>r. cell_of r idc \<in> labelled sd l) (rows td)\<rparr>"
  have in_sel: "r \<in> set (rows (?sel l)) \<longleftrightarrow> r \<in> set (rows td) \<and> cell_of r idc \<in> labelled sd l"
    for r l by simp
  have once: "cell_of r idc \<in> labelled sd l' \<longleftrightarrow> l' = l"
    if "s \<in> set (rows sd)" "cell_of s ''cmpd_id'' = cell_of r idc" "cell_of s ''subset'' = Str l"
    for r s l l'
    using labelled_once [OF assms(4) that(1) that(3), of l'] that(2) by simp
  have unlabelled: "cell_of r idc \<notin> labelled sd l"
    if "cell_of r idc \<notin> (\<lambda>s. cell_of s ''cmpd_id'') ` set (rows sd)" for r l
    using that by (auto simp: labelled_def)
  have disj: "set (rows (?sel l)) \<inter> set (rows (?sel l')) = {}" if "l \<noteq> l'" for l l'
  proof (rule ccontr)
    assume "set (rows (?sel l)) \<inter> set (rows (?sel l')) \<noteq> {}"
    then obtain r where r: "cell_of r idc \<in> labelled sd l" "cell_of r idc \<in> labelled sd l'"
      by auto
    from r(1) obtain s where s: "s \<in> set (rows sd)" "cell_of s ''subset'' = Str l"
        "cell_of s ''cmpd_id'' = cell_of r idc"
      by (auto simp: labelled_def)
    from once [OF s(1) s(3) s(2), of l'] r(2) that show False by simp
  qed
  show ?thesis
  proof (intro exI conjI)
    show "split td sd idc = Inr (?sel ''train'', ?sel ''test'', ?sel ''valid'')"
      by (rule split_rows [OF assms(1-3)])
    show "\<forall>r \<in> set (rows td). \<forall>s \<in> set (rows sd).
              cell_of s ''cmpd_id'' = cell_of r idc \<longrightarrow>
                (cell_of s ''subset'' = Str ''train'' \<longrightarrow>
                   r \<in> set (rows (?sel ''train'')) \<and> r \<notin> set (rows (?sel ''test'')) \<and>
                   r \<notin> set (rows (?sel ''valid''))) \<and>
                (cell_of s ''subset'' = Str ''test'' \<longrightarrow>
                   r \<notin> set (rows (?sel ''train'')) \<and> r \<in> set (rows (?sel ''test'')) \<and>
                   r \<notin> set (rows (?sel ''valid''))) \<and>
                (cell_of s ''subset'' = Str ''valid'' \<longrightarrow>
                   r \<notin> set (rows (?sel ''train'')) \<and> r \<notin> set (rows (?sel ''test'')) \<and>
                   r \<in> set (rows (?sel ''valid'')))"
      unfolding in_sel using once by auto
    show "\<forall>r \<in> set (rows td).
              cell_of r idc \<notin> (\<lambda>s. cell_of s ''cmpd_id'') ` set (rows sd) \<longrightarrow>
                r \<notin> set (rows (?sel ''train'')) \<and> r \<notin> set (rows (?sel ''test'')) \<and>
                r \<notin> set (rows (?sel ''valid''))"
      unfolding in_sel using unlabelled by blast
    show "set (rows (?sel ''train'')) \<inter> set (rows (?sel ''test'')) = {}"
      by (rule disj) simp
    show "set (rows (?sel ''train'')) \<inter> set (rows (?sel ''valid'')) = {}"
      by (rule disj) simp
    show "set (rows (?sel ''test'')) \<inter> set (rows (?sel ''valid'')) = {}"
      by (rule disj) simp
  qed
qed


theorem split_by_label_witness:
  "''compound_id'' \<in> set (columns example_df) \<and> ''subset'' \<in> set (columns example_split) \<and>
   ''cmpd_id'' \<in> set (columns example_split) \<and>
   distinct (map (\<lambda>s. cell_of s ''cmpd_id'') (rows example_split)) \<and>
   (\<exists>train test valid.
      split example_df example_split ''compound_id'' = Inr (train, test, valid) \<and>
      [(''compound_id'', Str ''c1''), (''smiles'', Str ''CCO''), (''pIC50'', Num 5)] \<in> set (rows train) \<and>
      [(''compound_id'', Str ''c1''), (''smiles'', Str ''CCO''), (''pIC50'', Num 5)] \<notin> set (rows test) \<and>
      [(''compound_id'', Str ''c1''), (''smiles'', Str ''CCO''), (''pIC50'', Num 5)] \<notin> set (rows valid) \<and>
      set (rows train) \<inter> set (rows test) = {})"
proof -
  let ?r = "[(''compound_id'', Str ''c1''), (''smiles'', Str ''CCO''), (''pIC50'', Num 5)]"
  let ?s = "[(''cmpd_id'', Str ''c1''), (''subset'', Str ''train''), (''fold'', Num 0)]"
  have h: "''compound_id'' \<in> set (columns example_df)" "''subset'' \<in> set (columns example_split)"
      "''cmpd_id'' \<in> set (columns example_split)"
      "distinct (map (\<lambda>s. cell_of s ''cmpd_id'') (rows example_split))"
    by (simp_all add: example_df_def example_split_def cell_of_def)
  have m: "?r \<in> set (rows example_df)" "?s \<in> set (rows example_split)"
      "cell_of ?s ''cmpd_id'' = cell_of ?r ''compound_id''" "cell_of ?s ''subset'' = Str ''train''"
    by (simp_all add: example_df_def example_split_def cell_of_def)
  from split_by_label [OF h] obtain train test valid where
    t: "split example_df example_split ''compound_id'' = Inr (train, test, valid)"
    and a: "\<forall>r \<in> set (rows example_df). \<forall>s \<in> set (rows example_split).
              cell_of s ''cmpd_id'' = cell_of r ''compound_id'' \<longrightarrow>
                (cell_of s ''subset'' = Str ''train'' \<longrightarrow>
                   r \<in> set (rows train) \<and> r \<notin> set (rows test) \<and> r \<notin> set (rows valid)) \<and>
                (cell_of s ''subset'' = Str ''test'' \<longrightarrow>
                   r \<notin> set (rows train) \<and> r \<in> set (rows test) \<and> r \<notin> set (rows valid)) \<and>
                (cell_of s ''subset'' = Str ''valid'' \<longrightarrow>
                   r \<notin> set (rows train) \<and> r \<notin> set (rows test) \<and> r \<in> set (rows valid))"
    and d: "set (rows train) \<inter> set (rows test) = {}"
    by blast
  from a m have "?r \<in> set (rows train) \<and> ?r \<notin> set (rows test) \<and> ?r \<notin> set (rows valid)"
    by blast
  with t d h show ?thesis by blast
qed


text \<open>
  Claim dists_from_train_and_test. In every constructed \<open>SplitStats\<close> object, \<open>dists\<close> is the value of
  \<open>calc_dist_smiles\<close> on \<open>ECFP\<close>, \<open>tanimoto\<close>, the SMILES column of the train subset and
  the SMILES column of the test subset, in this order. Two objects with the same train and
  test subsets have the same \<open>dists\<close>, whatever their validation subsets, their datasets
  and their weights are.
\<close>

theorem dists_from_train_and_test:
  assumes "SplitStats_init cd mk td sd smiles idc resp = Inr ss"
  shows "(\<exists>train_smiles test_smiles.
            getitem (train_df ss) (smiles_col ss) = Inr train_smiles \<and>
            getitem (test_df ss) (smiles_col ss) = Inr test_smiles \<and>
            cd ''ECFP'' ''tanimoto'' train_smiles test_smiles = Inr (dists ss)) \<and>
         (\<forall>mk' td' sd' idc' resp' ss'.
            SplitStats_init cd mk' td' sd' smiles idc' resp' = Inr ss' \<and>
            train_df ss' = train_df ss \<and> test_df ss' = test_df ss \<longrightarrow> dists ss' = dists ss)"
proof (intro conjI allI impI)
  have d: "get_dists cd smiles (train_df ss) (test_df ss) = Inr (dists ss)"
    by (rule SplitStats_init_fields(6) [OF assms])
  have sm: "smiles_col ss = smiles"
    by (rule SplitStats_init_fields(8) [OF assms])
  show "\<exists>train_smiles test_smiles.
            getitem (train_df ss) (smiles_col ss) = Inr train_smiles \<and>
            getitem (test_df ss) (smiles_col ss) = Inr test_smiles \<and>
            cd ''ECFP'' ''tanimoto'' train_smiles test_smiles = Inr (dists ss)"
    using d unfolding sm by (auto simp: get_dists_def split: sum.splits)
  fix mk' :: "dataframe \<Rightarrow> string list \<Rightarrow> error + 'c \<times> ndarray"
  fix td' sd' idc' resp' and ss' :: "('c, 'b) SplitStats"
  assume a: "SplitStats_init cd mk' td' sd' smiles idc' resp' = Inr ss' \<and>
            train_df ss' = train_df ss \<and> test_df ss' = test_df ss"
  then have "get_dists cd smiles (train_df ss') (test_df ss') = Inr (dists ss')"
    using SplitStats_init_fields(6) by blast
  with a d show "dists ss' = dists ss" by simp
qed


theorem dists_from_train_and_test_witness:
  "\<exists>ss. SplitStats_init example_dist example_make_y_w example_df example_split
          ''smiles'' ''compound_id'' [''pIC50''] = Inr ss \<and>
        getitem (train_df ss) ''smiles'' = Inr [Str ''CCO'', Str ''COC''] \<and>
        getitem (test_df ss) ''smiles'' = Inr [Str ''CCC''] \<and>
        dists ss = [(Str ''CCO'', Str ''CCC''), (Str ''COC'', Str ''CCC'')]"
proof -
  obtain ss where h: "SplitStats_init example_dist example_make_y_w example_df example_split
          ''smiles'' ''compound_id'' [''pIC50''] = Inr ss"
    using example_init by blast
  note f = SplitStats_init_fields [OF h]
  have tr: "getitem (train_df ss) ''smiles'' = Inr [Str ''CCO'', Str ''COC'']"
    and te: "getitem (test_df ss) ''smiles'' = Inr [Str ''CCC'']"
    unfolding example_subsets [OF f(1)]
    by (simp_all add: getitem_def example_df_def cell_of_def)
  from dists_from_train_and_test [OF h] obtain a b where
    "getitem (train_df ss) (smiles_col ss) = Inr a" "getitem (test_df ss) (smiles_col ss) = Inr b"
    "example_dist ''ECFP'' ''tanimoto'' a b = Inr (dists ss)"
    by blast
  then have "dists ss = [(Str ''CCO'', Str ''CCC''), (Str ''COC'', Str ''CCC'')]"
    using tr te f(8) by (auto simp: example_dist_def)
  with h tr te show ?thesis by blast
qed


text \<open>
  Claim split_ratios_sum_to_one. Let \<open>make_y_w\<close> give a weight array with one row per row of the dataframe and
  one entry per response column, the entry computed from that row. If the rows of the three
  subsets are, counted with repetition, exactly the rows of \<open>total_df\<close>, and no response
  column has total weight zero, then in every response column the three fractions exist
  and add up to one.
\<close>

theorem split_ratios_sum_to_one:
  assumes init: "SplitStats_init cd mk td sd smiles idc resp = Inr ss"
      and rowwise: "\<forall>df cols y w. mk df cols = Inr (y, w) \<longrightarrow>
                      w = (length cols, map (\<lambda>r. map (wt r) cols) (rows df))"
      and part: "mset (rows (train_df ss)) + mset (rows (test_df ss)) + mset (rows (valid_df ss))
                   = mset (rows td)"
      and nonzero: "\<forall>s \<in> set (np_sum_axis0 (total_w ss)). s \<noteq> 0"
  shows "length (train_fracs ss) = length resp \<and> length (valid_fracs ss) = length resp \<and>
         length (test_fracs ss) = length resp \<and>
         (\<forall>j < length resp. \<exists>a b c.
            train_fracs ss ! j = Some a \<and> valid_fracs ss ! j = Some b \<and>
            test_fracs ss ! j = Some c \<and> a + b + c = 1)"
proof -
  note f = SplitStats_init_fields [OF init]
  let ?S = "\<lambda>df. map (\<lambda>c. sum_list (map (\<lambda>r. wt r c) (rows df))) resp"
  have w: "np_sum_axis0 (total_w ss) = ?S td" "np_sum_axis0 (train_w ss) = ?S (train_df ss)"
      "np_sum_axis0 (test_w ss) = ?S (test_df ss)" "np_sum_axis0 (valid_w ss) = ?S (valid_df ss)"
  proof -
    have r: "w = (length resp, map (\<lambda>r. map (wt r) resp) (rows df))"
      if "mk df resp = Inr (y, w)" for df y w
      using rowwise that by blast
    show "np_sum_axis0 (total_w ss) = ?S td"
      unfolding r [OF f(2)] by (rule sum_rows)
    show "np_sum_axis0 (train_w ss) = ?S (train_df ss)"
      unfolding r [OF f(3)] by (rule sum_rows)
    show "np_sum_axis0 (test_w ss) = ?S (test_df ss)"
      unfolding r [OF f(4)] by (rule sum_rows)
    show "np_sum_axis0 (valid_w ss) = ?S (valid_df ss)"
      unfolding r [OF f(5)] by (rule sum_rows)
  qed
  have fr: "train_fracs ss = np_divide (?S (train_df ss)) (?S td)"
      "valid_fracs ss = np_divide (?S (valid_df ss)) (?S td)"
      "test_fracs ss = np_divide (?S (test_df ss)) (?S td)"
    using f(7) by (simp_all add: split_ratios_def Let_def w)
  have len: "length (train_fracs ss) = length resp" "length (valid_fracs ss) = length resp"
      "length (test_fracs ss) = length resp"
    by (simp_all add: fr np_divide_def)
  have "\<exists>a b c. train_fracs ss ! j = Some a \<and> valid_fracs ss ! j = Some b \<and>
            test_fracs ss ! j = Some c \<and> a + b + c = 1" if j: "j < length resp" for j
  proof -
    let ?c = "resp ! j"
    let ?T = "\<lambda>df. sum_list (map (\<lambda>r. wt r ?c) (rows df))"
    have nz: "?T td \<noteq> 0"
      using nonzero j unfolding w(1) by (auto simp: set_conv_nth)
    have add: "?T (train_df ss) + ?T (test_df ss) + ?T (valid_df ss) = ?T td"
      unfolding sum_list_mset part [symmetric] by simp
    have "train_fracs ss ! j = Some (?T (train_df ss) / ?T td)"
        "valid_fracs ss ! j = Some (?T (valid_df ss) / ?T td)"
        "test_fracs ss ! j = Some (?T (test_df ss) / ?T td)"
      using j nz by (simp_all add: fr np_divide_nth)
    moreover have "?T (train_df ss) / ?T td + ?T (valid_df ss) / ?T td + ?T (test_df ss) / ?T td = 1"
      using nz add by (simp add: add_divide_distrib [symmetric] ac_simps)
    ultimately show ?thesis by blast
  qed
  with len show ?thesis by blast
qed

theorem split_ratios_sum_to_one_witness:
  "\<exists>ss. SplitStats_init example_dist example_make_y_w example_df example_split
          ''smiles'' ''compound_id'' [''pIC50''] = Inr ss \<and>
        mset (rows (train_df ss)) + mset (rows (test_df ss)) + mset (rows (valid_df ss))
          = mset (rows example_df) \<and>
        np_sum_axis0 (total_w ss) = [3] \<and>
        (\<exists>a b c. train_fracs ss ! 0 = Some a \<and> valid_fracs ss ! 0 = Some b \<and>
                 test_fracs ss ! 0 = Some c \<and> a + b + c = 1)"
proof -
  obtain ss :: "(cell list list, (cell \<times> cell) list) SplitStats"
    where h: "SplitStats_init example_dist example_make_y_w example_df example_split
          ''smiles'' ''compound_id'' [''pIC50''] = Inr ss"
    using example_init by blast
  note f = SplitStats_init_fields [OF h]
  have rw: "\<forall>df cols y w. example_make_y_w df cols = Inr (y, w) \<longrightarrow>
              w = (length cols, map (\<lambda>r. map (\<lambda>c. if cell_of r c = NaN then 0 else 1) cols) (rows df))"
    by (auto simp: example_make_y_w_def)
  have part: "mset (rows (train_df ss)) + mset (rows (test_df ss)) + mset (rows (valid_df ss))
          = mset (rows example_df)"
    unfolding example_subsets [OF f(1)] by (simp add: example_df_def)
  have tw: "total_w ss = (1, [[1], [0], [1], [1]])"
    using f(2) by (auto simp: example_make_y_w_def example_df_def cell_of_def)
  have tot: "np_sum_axis0 (total_w ss) = [3]"
    by (simp add: tw np_sum_axis0_def)
  have nz: "\<forall>s \<in> set (np_sum_axis0 (total_w ss)). s \<noteq> 0"
    by (simp add: tot)
  from split_ratios_sum_to_one [OF h rw part nz]
  have "\<exists>a b c. train_fracs ss ! 0 = Some a \<and> valid_fracs ss ! 0 = Some b \<and>
                 test_fracs ss ! 0 = Some c \<and> a + b + c = 1"
    by simp
  with h part tot show ?thesis by blast
qed

text \<open>
  Claim main_raises_before_plotting fails on the code. The entry point calls \<open>SplitStats\<close> with two positional
  arguments and the keywords \<open>smiles_col\<close> and \<open>id_col\<close>; \<open>response_cols\<close> gets no value,
  so the call raises \<open>TypeError\<close>. Whatever the arguments and the files are, the run ends
  with an exception and saves no plot: the exception of \<open>read_csv\<close> if the dataset or
  split A cannot be read, and \<open>TypeError\<close> otherwise.
\<close>

theorem main_raises_before_plotting:
  "snd (main read_csv cd mk args) = [] \<and>
   fst (main read_csv cd mk args) =
     (case read_csv (arg_csv args) of
        Inl e \<Rightarrow> Inl e
      | Inr df \<Rightarrow> (case read_csv (arg_split_a args) of Inl e \<Rightarrow> Inl e | Inr sa \<Rightarrow> Inl TypeError))"
  by (simp add: main_def SplitStats_call_missing split: sum.splits)


theorem main_raises_before_plotting_witness:
  "example_read_csv ''data.csv'' = Inr example_df \<and>
   example_read_csv ''split_a.csv'' = Inr example_split \<and>
   main example_read_csv example_dist example_make_y_w
     \<lparr>arg_csv = ''data.csv'', arg_id_col = ''compound_id'', arg_smiles_col = ''smiles'',
      arg_split_a = ''split_a.csv'', arg_split_b = ''split_b.csv'', arg_output_dir = ''out''\<rparr>
     = (Inl TypeError, [])"
proof -
  let ?args = "\<lparr>arg_csv = ''data.csv'', arg_id_col = ''compound_id'', arg_smiles_col = ''smiles'',
      arg_split_a = ''split_a.csv'', arg_split_b = ''split_b.csv'', arg_output_dir = ''out''\<rparr>"
  have r: "example_read_csv ''data.csv'' = Inr example_df"
      "example_read_csv ''split_a.csv'' = Inr example_split"
    by (simp_all add: example_read_csv_def)
  have "snd (main example_read_csv example_dist example_make_y_w ?args) = [] \<and>
        fst (main example_read_csv example_dist example_make_y_w ?args) = Inl TypeError"
    using main_raises_before_plotting [of example_read_csv example_dist example_make_y_w ?args] r by simp
  then show ?thesis using r by (simp add: prod_eq_iff)
qed

end
